theory Spec2Isabelle
  imports Complex_Main "HOL-Library.Sublist"
begin

section \<open>JavaScript values\<close>

text \<open>
  The sensor ingestion route of \<^verbatim>\<open>src/server/index.ts\<close> receives a JSON body that it
  treats as \<^verbatim>\<open>unknown\<close>, so the payload is modelled as an untyped JavaScript value.

  A JavaScript number is an IEEE double. The code only asks whether a number is NaN and
  compares it with the literals \<open>-50\<close>, \<open>150\<close> and \<open>0\<close>; comparison of doubles is
  exact on the values they denote, so a number is NaN, one of the two infinities, or a
  finite value (both zeros are \<open>Finite 0\<close>).
\<close>

datatype jsnum = NaN | NegInfinity | Finite real | PosInfinity

datatype jsval =
    JUndefined
  | JNull
  | JBool bool
  | JNum jsnum
  | JStr string
  | JArr "jsval list"
  | JObj "(string \<times> jsval) list"

text \<open>The relational operator \<^verbatim>\<open><\<close> on two numbers: false as soon as one is NaN.\<close>

fun num_less :: "jsnum \<Rightarrow> jsnum \<Rightarrow> bool" where
  "num_less NaN _ = False"
| "num_less _ NaN = False"
| "num_less (Finite a) (Finite b) = (a < b)"
| "num_less NegInfinity NegInfinity = False"
| "num_less NegInfinity _ = True"
| "num_less PosInfinity _ = False"
| "num_less (Finite a) PosInfinity = True"
| "num_less (Finite a) NegInfinity = False"

text \<open>\<^verbatim>\<open>typeof v\<close>.\<close>

fun typeof :: "jsval \<Rightarrow> string" where
  "typeof JUndefined = ''undefined''"
| "typeof JNull = ''object''"
| "typeof (JBool _) = ''boolean''"
| "typeof (JNum _) = ''number''"
| "typeof (JStr _) = ''string''"
| "typeof (JArr _) = ''object''"
| "typeof (JObj _) = ''object''"

text \<open>ToBoolean: what \<^verbatim>\<open>!v\<close>, \<^verbatim>\<open>v || w\<close> and \<^verbatim>\<open>if (v)\<close> test.\<close>

fun truthy :: "jsval \<Rightarrow> bool" where
  "truthy JUndefined = False"
| "truthy JNull = False"
| "truthy (JBool b) = b"
| "truthy (JNum x) = (x \<noteq> NaN \<and> x \<noteq> Finite 0)"
| "truthy (JStr s) = (s \<noteq> [])"
| "truthy (JArr _) = True"
| "truthy (JObj _) = True"

text \<open>
  \<^verbatim>\<open>isNaN(value)\<close> as the loop of \<^verbatim>\<open>validateSensorData\<close> uses it: to the right of
  \<^verbatim>\<open>typeof value !== 'number' ||\<close>, so it is evaluated on numbers only. On any other value
  the left operand has already decided the disjunction.
\<close>

fun isNaN :: "jsval \<Rightarrow> bool" where
  "isNaN (JNum x) = (x = NaN)"
| "isNaN _ = False"

text \<open>
  \<^verbatim>\<open>v < c\<close> and \<^verbatim>\<open>v > c\<close> for a numeric literal \<open>c\<close>, as the range checks use them: after
  the loop has returned for every value that is not a number (\<open>check_numeric_None\<close>
  below), so no operand is ever coerced.
\<close>

fun less_than :: "jsval \<Rightarrow> real \<Rightarrow> bool" where
  "less_than (JNum x) c = num_less x (Finite c)"
| "less_than _ c = False"

fun greater_than :: "jsval \<Rightarrow> real \<Rightarrow> bool" where
  "greater_than (JNum x) c = num_less (Finite c) x"
| "greater_than _ c = False"

text \<open>
  A property read \<^verbatim>\<open>v.k\<close>. On \<^verbatim>\<open>null\<close> and \<^verbatim>\<open>undefined\<close> it throws a TypeError. An
  object (here: one parsed from JSON, so with own data properties only) gives the
  property's value, or \<^verbatim>\<open>undefined\<close> when it has none. The keys read by this program are
  \<^verbatim>\<open>asset_id\<close>, \<^verbatim>\<open>temperature\<close>, \<^verbatim>\<open>pressure\<close>, \<^verbatim>\<open>vibration\<close> and
  \<^verbatim>\<open>energy_consumption\<close>; no prototype defines any of them, so booleans, numbers, strings
  and arrays give \<^verbatim>\<open>undefined\<close>.
\<close>

datatype js_exception = TypeError

fun js_get :: "jsval \<Rightarrow> string \<Rightarrow> jsval" where
  "js_get (JObj ps) k = (case map_of ps k of None \<Rightarrow> JUndefined | Some v \<Rightarrow> v)"
| "js_get _ k = JUndefined"

fun get_prop :: "jsval \<Rightarrow> string \<Rightarrow> js_exception + jsval" where
  "get_prop JUndefined k = Inl TypeError"
| "get_prop JNull k = Inl TypeError"
| "get_prop v k = Inr (js_get v k)"

section \<open>Payload validation\<close>

text \<open>
  \<^verbatim>\<open>
  function validateSensorData(data: unknown): string | null {
    const sensorData = data as Partial<SensorReading>;
    if (!sensorData.asset_id || typeof sensorData.asset_id !== 'string') {
      return 'Invalid asset_id';
    }
    const numericFields = ['temperature', 'pressure', 'vibration', 'energy_consumption'];
    for (const field of numericFields) {
      const value = sensorData[field];
      if (typeof value !== 'number' || isNaN(value)) {
        return `Invalid ${field}`;
      }
    }
    if (sensorData.temperature! < -50 || sensorData.temperature! > 150) {
      return 'Temperature must be between -50 and 150';
    }
    if (sensorData.pressure! < 0) { return 'Pressure must be non-negative'; }
    if (sensorData.vibration! < 0) { return 'Vibration must be non-negative'; }
    if (sensorData.energy_consumption! < 0) {
      return 'Energy consumption must be non-negative';
    }
    return null;
  }
  \<close>
  The result \<open>Inr None\<close> is \<^verbatim>\<open>null\<close>, \<open>Inr (Some msg)\<close> an error message, and \<open>Inl e\<close> an
  exception thrown instead of returning. The first property read is the one that can
  throw; the later reads are of the same value.
\<close>

definition numericFields :: "string list" where
  "numericFields = [''temperature'', ''pressure'', ''vibration'', ''energy_consumption'']"

fun check_numeric :: "jsval \<Rightarrow> string list \<Rightarrow> string option" where
  "check_numeric sensorData [] = None"
| "check_numeric sensorData (field # rest) =
     (let value = js_get sensorData field in
      if typeof value \<noteq> ''number'' \<or> isNaN value
      then Some (''Invalid '' @ field)
      else check_numeric sensorData rest)"

definition check_ranges :: "jsval \<Rightarrow> string option" where
  "check_ranges sensorData =
     (if less_than (js_get sensorData ''temperature'') (- 50)
         \<or> greater_than (js_get sensorData ''temperature'') 150
      then Some ''Temperature must be between -50 and 150''
      else if less_than (js_get sensorData ''pressure'') 0
      then Some ''Pressure must be non-negative''
      else if less_than (js_get sensorData ''vibration'') 0
      then Some ''Vibration must be non-negative''
      else if less_than (js_get sensorData ''energy_consumption'') 0
      then Some ''Energy consumption must be non-negative''
      else None)"

definition validateSensorData :: "jsval \<Rightarrow> js_exception + string option" where
  "validateSensorData data =
     (case get_prop data ''asset_id'' of
        Inl ex \<Rightarrow> Inl ex
      | Inr asset_id \<Rightarrow>
          if \<not> truthy asset_id \<or> typeof asset_id \<noteq> ''string''
          then Inr (Some ''Invalid asset_id'')
          else (case check_numeric data numericFields of
                  Some msg \<Rightarrow> Inr (Some msg)
                | None \<Rightarrow> Inr (check_ranges data)))"

section \<open>The ingestion route\<close>

text \<open>
  The request as the handler reads it: \<^verbatim>\<open>req.headers.authorization\<close>, \<^verbatim>\<open>req.params.id\<close>
  (\<^verbatim>\<open>SensorParams\<close>), \<^verbatim>\<open>req.query.timestamp\<close> (\<^verbatim>\<open>SensorQuery\<close>) and \<^verbatim>\<open>req.body\<close>. An
  optional field that is absent is \<open>None\<close>.
\<close>

record request =
  authorization :: "string option"
  params_id :: "string option"
  query_timestamp :: "string option"
  body :: jsval

text \<open>The object literal handed to \<^verbatim>\<open>.from('sensor_readings').insert(...)\<close>.\<close>

record sensor_row =
  asset_id :: jsval
  temperature :: jsval
  pressure :: jsval
  vibration :: jsval
  energy_consumption :: jsval
  timestamp :: string

text \<open>\<^verbatim>\<open>ErrorResponse\<close> is \<^verbatim>\<open>{ error: string }\<close>, \<^verbatim>\<open>SuccessResponse\<close> is \<^verbatim>\<open>{ message: string }\<close>.\<close>

datatype response_body = ErrorResponse string | SuccessResponse string

record response =
  status :: nat
  json :: response_body

text \<open>
  The two external providers and the clock. Their code is not part of the repository, so
  they are parameters. \<open>getUser\<close> resolves to \<^verbatim>\<open>{ data: { user }, error }\<close> and
  \<open>insert_into\<close> to \<^verbatim>\<open>{ error }\<close>, where \<^verbatim>\<open>null\<close> is \<open>None\<close>; either may also throw
  (\<open>Inl\<close>). \<open>'u\<close> is the provider's user object, \<open>'e\<close> its error detail.
  \<open>now_toISOString\<close> is the value of \<^verbatim>\<open>new Date().toISOString()\<close> during the request.
\<close>

record ('u, 'e) user_response =
  auth_user :: "'u option"
  auth_error :: "'e option"

record ('u, 'e) providers =
  getUser :: "string option \<Rightarrow> 'e + ('u, 'e) user_response"
  insert_into :: "string \<Rightarrow> sensor_row \<Rightarrow> 'e + 'e option"
  now_toISOString :: string

text \<open>
  What the handler does to the outside world, in order: the calls to the providers and
  the lines written with \<^verbatim>\<open>console.error\<close> (the label and the value logged, which is
  either an exception of the handler's own or a provider's error detail).
\<close>

datatype 'e effect =
    GetUser "string option"
  | Insert string sensor_row
  | ConsoleError string "js_exception + 'e"

text \<open>\<^verbatim>\<open>s.split(' ')\<close>: the pieces between the occurrences of the separator.\<close>

fun split_on :: "char \<Rightarrow> string \<Rightarrow> string list" where
  "split_on c [] = [[]]"
| "split_on c (x # xs) =
     (if x = c then [] # split_on c xs
      else (case split_on c xs of
              [] \<Rightarrow> [[x]]
            | w # ws \<Rightarrow> (x # w) # ws))"

text \<open>\<^verbatim>\<open>xs[i]\<close>: \<^verbatim>\<open>undefined\<close> (here \<open>None\<close>) out of range.\<close>

definition js_index :: "'a list \<Rightarrow> nat \<Rightarrow> 'a option" where
  "js_index xs i = (if i < length xs then Some (xs ! i) else None)"

definition token_of :: "string \<Rightarrow> string option" where
  "token_of authHeader = js_index (split_on CHR '' '' authHeader) 1"

text \<open>\<^verbatim>\<open>req.query.timestamp || new Date().toISOString()\<close>: the empty string is falsy.\<close>

definition timestamp_or_now :: "string option \<Rightarrow> string \<Rightarrow> string" where
  "timestamp_or_now q now =
     (case q of None \<Rightarrow> now | Some ts \<Rightarrow> if ts \<noteq> [] then ts else now)"

definition row_of :: "request \<Rightarrow> string \<Rightarrow> sensor_row" where
  "row_of req now =
     \<lparr> asset_id = js_get (body req) ''asset_id'',
       temperature = js_get (body req) ''temperature'',
       pressure = js_get (body req) ''pressure'',
       vibration = js_get (body req) ''vibration'',
       energy_consumption = js_get (body req) ''energy_consumption'',
       timestamp = timestamp_or_now (query_timestamp req) now \<rparr>"

definition respond :: "nat \<Rightarrow> response_body \<Rightarrow> response" where
  "respond code b = \<lparr> status = code, json = b \<rparr>"

text \<open>The \<^verbatim>\<open>catch\<close> block: log the exception, answer 500.\<close>

definition caught :: "'e effect list \<Rightarrow> js_exception + 'e \<Rightarrow> 'e effect list \<times> response" where
  "caught sofar ex =
     (sofar @ [ConsoleError ''Error processing request:'' ex],
      respond 500 (ErrorResponse ''Internal server error''))"

text \<open>
  The persistence step, reached with the effects \<open>sofar\<close> performed so far:
  \<^verbatim>\<open>
  const { error: insertError } = await supabaseClient.from('sensor_readings').insert({...});
  if (insertError) {
    console.error('Error inserting sensor data:', insertError);
    res.status(500).json({ error: 'Failed to store sensor reading' });
    return;
  }
  res.status(200).json({ message: 'Sensor reading stored successfully' });
  \<close>
\<close>

definition store_reading ::
  "('u, 'e) providers \<Rightarrow> 'e effect list \<Rightarrow> request \<Rightarrow> 'e effect list \<times> response" where
  "store_reading env sofar req =
     (let row = row_of req (now_toISOString env) in
      (case insert_into env ''sensor_readings'' row of
         Inl ex \<Rightarrow> caught (sofar @ [Insert ''sensor_readings'' row]) (Inr ex)
       | Inr (Some insertError) \<Rightarrow>
           (sofar @ [Insert ''sensor_readings'' row,
                    ConsoleError ''Error inserting sensor data:'' (Inr insertError)],
            respond 500 (ErrorResponse ''Failed to store sensor reading''))
       | Inr None \<Rightarrow>
           (sofar @ [Insert ''sensor_readings'' row],
            respond 200 (SuccessResponse ''Sensor reading stored successfully''))))"

text \<open>
  The handler of \<^verbatim>\<open>POST /api/ingest-sensor/:id?\<close>: the effects it performs, in order, and
  the response it sends.
  \<^item> \<^verbatim>\<open>!authHeader?.startsWith('Bearer ')\<close> holds for an absent header and for one without
    the prefix;
  \<^item> \<^verbatim>\<open>authError || !user\<close> holds when the provider reports an error or no user;
  \<^item> \<^verbatim>\<open>if (validationError)\<close> tests a \<^verbatim>\<open>string | null\<close>, so an empty message would count
    as no error;
  \<^item> an exception anywhere inside \<^verbatim>\<open>try\<close> ends in the \<^verbatim>\<open>catch\<close> block.
\<close>

definition handler :: "('u, 'e) providers \<Rightarrow> request \<Rightarrow> 'e effect list \<times> response" where
  "handler env req =
     (case authorization req of
        None \<Rightarrow> ([], respond 401 (ErrorResponse ''Missing or invalid Authorization header''))
      | Some authHeader \<Rightarrow>
          if \<not> prefix ''Bearer '' authHeader
          then ([], respond 401 (ErrorResponse ''Missing or invalid Authorization header''))
          else
            let token = token_of authHeader in
            (case getUser env token of
               Inl ex \<Rightarrow> caught [GetUser token] (Inr ex)
             | Inr reply \<Rightarrow>
                 if auth_error reply \<noteq> None \<or> auth_user reply = None
                 then ([GetUser token], respond 401 (ErrorResponse ''Invalid token''))
                 else
                   (case validateSensorData (body req) of
                      Inl ex \<Rightarrow> caught [GetUser token] (Inl ex)
                    | Inr None \<Rightarrow> store_reading env [GetUser token] req
                    | Inr (Some validationError) \<Rightarrow>
                        if validationError \<noteq> []
                        then ([GetUser token], respond 400 (ErrorResponse validationError))
                        else store_reading env [GetUser token] req)))"

section \<open>Notions of the specification\<close>

text \<open>
  The specification speaks of an \<^verbatim>\<open>asset_id\<close> that is present and a string, of a
  well-formed number, of the ranges of the four measurements and of a request with valid
  authentication. These predicates state them; the lemmas below relate them to the tests
  the code performs.
\<close>

definition nonempty_string :: "jsval \<Rightarrow> bool" where
  "nonempty_string v = (case v of JStr s \<Rightarrow> s \<noteq> [] | _ \<Rightarrow> False)"

definition well_formed_number :: "jsval \<Rightarrow> bool" where
  "well_formed_number v = (case v of JNum x \<Rightarrow> x \<noteq> NaN | _ \<Rightarrow> False)"

definition temperature_in_range :: "jsnum \<Rightarrow> bool" where
  "temperature_in_range x = (case x of Finite r \<Rightarrow> - 50 \<le> r \<and> r \<le> 150 | _ \<Rightarrow> False)"

definition non_negative :: "jsnum \<Rightarrow> bool" where
  "non_negative x = (case x of Finite r \<Rightarrow> 0 \<le> r | PosInfinity \<Rightarrow> True | _ \<Rightarrow> False)"

definition authenticated :: "('u, 'e) providers \<Rightarrow> request \<Rightarrow> bool" where
  "authenticated env req =
     (case authorization req of
        None \<Rightarrow> False
      | Some h \<Rightarrow>
          prefix ''Bearer '' h \<and>
          (case getUser env (token_of h) of
             Inl ex \<Rightarrow> False
           | Inr reply \<Rightarrow> auth_error reply = None \<and> auth_user reply \<noteq> None))"

definition sent_token :: "request \<Rightarrow> string option" where
  "sent_token req = (case authorization req of None \<Rightarrow> None | Some h \<Rightarrow> token_of h)"

text \<open>
  The messages \<^verbatim>\<open>validateSensorData\<close> can return, in the order of
  its checks.
\<close>

definition validation_messages :: "string list" where
  "validation_messages =
     [''Invalid asset_id'', ''Invalid temperature'', ''Invalid pressure'', ''Invalid vibration'',
      ''Invalid energy_consumption'', ''Temperature must be between -50 and 150'',
      ''Pressure must be non-negative'', ''Vibration must be non-negative'',
      ''Energy consumption must be non-negative'']"

text \<open>The effects that are inserts.\<close>

fun is_Insert :: "'e effect \<Rightarrow> bool" where
  "is_Insert (Insert t r) = True"
| "is_Insert _ = False"

section \<open>Example values\<close>

text \<open>
  Concrete payloads, providers and requests on which the theorems are instantiated. The
  body is the example of the specification; the auth provider accepts the token
  \<^verbatim>\<open>good\<close> only, the storage provider accepts readings of asset \<^verbatim>\<open>A1\<close> only.
\<close>

definition reading :: "jsval \<Rightarrow> jsval \<Rightarrow> jsval \<Rightarrow> jsval \<Rightarrow> jsval \<Rightarrow> jsval" where
  "reading a t p v e =
     JObj [(''asset_id'', a), (''temperature'', t), (''pressure'', p), (''vibration'', v),
           (''energy_consumption'', e)]"

definition example_body :: jsval where
  "example_body =
     reading (JStr ''A1'') (JNum (Finite 25)) (JNum (Finite 10)) (JNum (Finite 0.5))
       (JNum (Finite 100))"

definition message_payloads :: "jsval list" where
  "message_payloads =
     [reading (JNum (Finite 7)) (JNum (Finite 25)) (JNum (Finite 10)) (JNum (Finite 0.5)) (JNum (Finite 100)),
      reading (JStr ''A1'') (JStr ''hot'') (JNum (Finite 10)) (JNum (Finite 0.5)) (JNum (Finite 100)),
      reading (JStr ''A1'') (JNum (Finite 25)) JNull (JNum (Finite 0.5)) (JNum (Finite 100)),
      reading (JStr ''A1'') (JNum (Finite 25)) (JNum (Finite 10)) (JBool True) (JNum (Finite 100)),
      reading (JStr ''A1'') (JNum (Finite 25)) (JNum (Finite 10)) (JNum (Finite 0.5)) (JArr []),
      reading (JStr ''A1'') (JNum (Finite 200)) (JNum (Finite 10)) (JNum (Finite 0.5)) (JNum (Finite 100)),
      reading (JStr ''A1'') (JNum (Finite 25)) (JNum (Finite (- 1))) (JNum (Finite 0.5)) (JNum (Finite 100)),
      reading (JStr ''A1'') (JNum (Finite 25)) (JNum (Finite 10)) (JNum (Finite (- 0.5))) (JNum (Finite 100)),
      reading (JStr ''A1'') (JNum (Finite 25)) (JNum (Finite 10)) (JNum (Finite 0.5)) (JNum (Finite (- 100)))]"

definition example_env :: "(string, string) providers" where
  "example_env =
     \<lparr> getUser = (\<lambda>t. if t = Some ''good'' then Inr \<lparr> auth_user = Some ''u1'', auth_error = None \<rparr>
                       else Inr \<lparr> auth_user = None, auth_error = Some ''invalid JWT'' \<rparr>),
       insert_into = (\<lambda>t r. if asset_id r = JStr ''A1'' then Inr None
                             else Inr (Some ''violates foreign key constraint'')),
       now_toISOString = ''2025-03-25T19:20:21.000Z'' \<rparr>"

definition example_request :: "string option \<Rightarrow> string option \<Rightarrow> jsval \<Rightarrow> request" where
  "example_request i ts b =
     \<lparr> authorization = Some ''Bearer good'', params_id = i, query_timestamp = ts, body = b \<rparr>"

section \<open>Properties of the validation and of the handler\<close>

text \<open>
  A property read of a value other than \<^verbatim>\<open>null\<close> and
  \<^verbatim>\<open>undefined\<close> does not throw.
\<close>

lemma get_prop_value: "d \<noteq> JNull \<Longrightarrow> d \<noteq> JUndefined \<Longrightarrow> get_prop d k = Inr (js_get d k)"
  by (cases d) simp_all

text \<open>
  The two tests of the code, \<^verbatim>\<open>!v || typeof v !== 'string'\<close> and
  \<^verbatim>\<open>typeof v !== 'number' || isNaN(v)\<close>, are the negations of the
  notions above.
\<close>

lemma asset_id_test: "nonempty_string a = (truthy a \<and> typeof a = ''string'')"
  by (cases a) (simp_all add: nonempty_string_def)

lemma number_test: "well_formed_number v = (typeof v = ''number'' \<and> \<not> isNaN v)"
  by (cases v) (simp_all add: well_formed_number_def)

lemma nonempty_string_not_nullish: "nonempty_string (js_get d k) \<Longrightarrow> d \<noteq> JNull \<and> d \<noteq> JUndefined"
  by (auto simp: nonempty_string_def)

text \<open>
  The loop returns the message of the first field that is not a well-formed number, and
  \<open>None\<close> exactly when all four are; so the range checks only ever compare
  numbers.
\<close>

lemma check_numeric_find:
  "check_numeric d fs =
     (case find (\<lambda>f. \<not> well_formed_number (js_get d f)) fs of
        None \<Rightarrow> None
      | Some f \<Rightarrow> Some (''Invalid '' @ f))"
  by (induction fs) (simp_all add: number_test Let_def)

lemma check_numeric_None:
  "check_numeric d numericFields = None \<longleftrightarrow>
     well_formed_number (js_get d ''temperature'') \<and> well_formed_number (js_get d ''pressure'') \<and>
     well_formed_number (js_get d ''vibration'') \<and> well_formed_number (js_get d ''energy_consumption'')"
  by (simp add: numericFields_def number_test Let_def)

text \<open>
  The three ways \<^verbatim>\<open>validateSensorData\<close> ends its first check.
\<close>

lemma validate_after_asset_id:
  "nonempty_string (js_get d ''asset_id'') \<Longrightarrow>
   validateSensorData d =
     Inr (case check_numeric d numericFields of Some msg \<Rightarrow> Some msg | None \<Rightarrow> check_ranges d)"
  using nonempty_string_not_nullish[of d "''asset_id''"]
  by (auto simp: validateSensorData_def get_prop_value asset_id_test split: option.splits)

lemma validate_asset_id_bad:
  "d \<noteq> JNull \<Longrightarrow> d \<noteq> JUndefined \<Longrightarrow> \<not> nonempty_string (js_get d ''asset_id'') \<Longrightarrow>
   validateSensorData d = Inr (Some ''Invalid asset_id'')"
  by (auto simp: validateSensorData_def get_prop_value asset_id_test)

lemma validate_nullish: "d = JNull \<or> d = JUndefined \<Longrightarrow> validateSensorData d = Inl TypeError"
  by (auto simp: validateSensorData_def)

text \<open>The messages of the loop and of the range checks.\<close>

lemma check_numeric_message:
  "check_numeric d numericFields = Some m \<Longrightarrow>
   m \<in> {''Invalid temperature'', ''Invalid pressure'', ''Invalid vibration'', ''Invalid energy_consumption''}"
  by (simp add: numericFields_def Let_def split: if_splits)

lemma check_ranges_message:
  "check_ranges d = Some m \<Longrightarrow>
   m \<in> {''Temperature must be between -50 and 150'', ''Pressure must be non-negative'',
        ''Vibration must be non-negative'', ''Energy consumption must be non-negative''}"
  by (simp add: check_ranges_def split: if_splits)

text \<open>The example values.\<close>

lemma reading_fields:
  "js_get (reading a t p v e) ''asset_id'' = a"
  "js_get (reading a t p v e) ''temperature'' = t"
  "js_get (reading a t p v e) ''pressure'' = p"
  "js_get (reading a t p v e) ''vibration'' = v"
  "js_get (reading a t p v e) ''energy_consumption'' = e"
  by (simp_all add: reading_def)

lemma example_body_valid: "validateSensorData example_body = Inr None"
  by (simp add: validate_after_asset_id example_body_def reading_fields nonempty_string_def
      numericFields_def check_ranges_def)

lemma token_good: "token_of ''Bearer good'' = Some ''good''"
  by (simp add: token_of_def js_index_def)

lemma example_authenticated: "authenticated example_env (example_request i ts b)"
  by (simp add: authenticated_def example_env_def example_request_def token_good)

text \<open>
  With valid authentication the handler calls \<^verbatim>\<open>getUser\<close> once
  and goes on to validation.
\<close>

lemma handler_authenticated:
  "authenticated env req \<Longrightarrow>
   handler env req =
     (case validateSensorData (body req) of
        Inl ex \<Rightarrow> caught [GetUser (sent_token req)] (Inl ex)
      | Inr None \<Rightarrow> store_reading env [GetUser (sent_token req)] req
      | Inr (Some m) \<Rightarrow>
          if m \<noteq> [] then ([GetUser (sent_token req)], respond 400 (ErrorResponse m))
          else store_reading env [GetUser (sent_token req)] req)"
  by (auto simp: authenticated_def handler_def sent_token_def Let_def
      split: option.splits sum.splits)

lemma store_reading_inserts:
  "filter is_Insert (fst (store_reading env sofar req)) =
     filter is_Insert sofar @ [Insert ''sensor_readings'' (row_of req (now_toISOString env))]"
  by (simp add: store_reading_def caught_def Let_def split: sum.splits option.splits)

text \<open>
  On four numbers the result is that of the range checks, stated with the ranges of the
  specification.
\<close>

lemma validate_numeric:
  assumes asset: "nonempty_string (js_get d ''asset_id'')"
    and t: "js_get d ''temperature'' = JNum t" "t \<noteq> NaN"
    and p: "js_get d ''pressure'' = JNum p" "p \<noteq> NaN"
    and v: "js_get d ''vibration'' = JNum v" "v \<noteq> NaN"
    and e: "js_get d ''energy_consumption'' = JNum e" "e \<noteq> NaN"
  shows "validateSensorData d =
       Inr (if \<not> temperature_in_range t then Some ''Temperature must be between -50 and 150''
            else if \<not> non_negative p then Some ''Pressure must be non-negative''
            else if \<not> non_negative v then Some ''Vibration must be non-negative''
            else if \<not> non_negative e then Some ''Energy consumption must be non-negative''
            else None)"
proof -
  have num: "check_numeric d numericFields = None"
    using t p v e by (simp add: check_numeric_None well_formed_number_def)
  have lt: "less_than (JNum x) 0 = (\<not> non_negative x)" if "x \<noteq> NaN" for x
    using that by (cases x) (auto simp: non_negative_def)
  have temp: "(less_than (JNum t) (- 50) \<or> greater_than (JNum t) 150) = (\<not> temperature_in_range t)"
    using t(2) by (cases t) (auto simp: temperature_in_range_def)
  have "check_ranges d =
      (if \<not> temperature_in_range t then Some ''Temperature must be between -50 and 150''
       else if \<not> non_negative p then Some ''Pressure must be non-negative''
       else if \<not> non_negative v then Some ''Vibration must be non-negative''
       else if \<not> non_negative e then Some ''Energy consumption must be non-negative''
       else None)"
    unfolding check_ranges_def t(1) p(1) v(1) e(1) temp lt[OF p(2)] lt[OF v(2)] lt[OF e(2)]
    by simp
  then show ?thesis
    using asset num by (simp add: validate_after_asset_id)
qed

text \<open>
  The insert of the success path, and where an insert among the effects comes from.
\<close>

lemma handler_valid_inserts:
  assumes auth: "authenticated env req"
    and valid: "validateSensorData (body req) = Inr None"
  shows "filter is_Insert (fst (handler env req)) =
     [Insert ''sensor_readings'' (row_of req (now_toISOString env))]"
proof -
  have "handler env req = store_reading env [GetUser (sent_token req)] req"
    using auth valid by (simp add: handler_authenticated)
  then show ?thesis
    by (simp add: store_reading_inserts)
qed

lemma insert_effect_origin:
  assumes "Insert t row \<in> set (fst (handler env req))"
  shows "t = ''sensor_readings'' \<and> row = row_of req (now_toISOString env)
     \<and> handler env req = store_reading env [GetUser (sent_token req)] req"
  using assms
  by (auto simp: handler_def store_reading_def caught_def sent_token_def respond_def Let_def
      split: option.splits sum.splits if_splits)

text \<open>
  The result of validation is determined by whether the payload is
  \<^verbatim>\<open>null\<close> or \<^verbatim>\<open>undefined\<close> and by the
  five properties read.
\<close>

lemma check_numeric_fields_only:
  "\<forall>f \<in> set fs. js_get d f = js_get d' f \<Longrightarrow> check_numeric d fs = check_numeric d' fs"
  by (induction fs) (simp_all add: Let_def)

lemma check_ranges_fields_only:
  "\<forall>f \<in> set numericFields. js_get d f = js_get d' f \<Longrightarrow> check_ranges d = check_ranges d'"
  by (simp add: check_ranges_def numericFields_def)

lemma validate_fields_only:
  assumes nullish: "(d = JNull \<or> d = JUndefined) = (d' = JNull \<or> d' = JUndefined)"
    and fields: "\<forall>k \<in> set (''asset_id'' # numericFields). js_get d k = js_get d' k"
  shows "validateSensorData d = validateSensorData d'"
proof (cases "d = JNull \<or> d = JUndefined")
  case True
  then show ?thesis
    using nullish validate_nullish[of d] validate_nullish[of d'] by simp
next
  case False
  then have nn: "d \<noteq> JNull" "d \<noteq> JUndefined" "d' \<noteq> JNull" "d' \<noteq> JUndefined"
    using nullish by auto
  have a: "js_get d ''asset_id'' = js_get d' ''asset_id''"
    using fields by simp
  have n: "check_numeric d numericFields = check_numeric d' numericFields"
    using fields by (simp add: check_numeric_fields_only)
  have r: "check_ranges d = check_ranges d'"
    using fields by (simp add: check_ranges_fields_only)
  show ?thesis
    using nn a n r
    by (auto simp: validateSensorData_def get_prop_value split: option.splits)
qed

text \<open>
  A payload that makes validation throw ends in the \<^verbatim>\<open>catch\<close>
  block.
\<close>

lemma handler_validation_throws:
  assumes "authenticated env req" and "validateSensorData (body req) = Inl ex"
  shows "handler env req =
     ([GetUser (sent_token req), ConsoleError ''Error processing request:'' (Inl ex)],
      \<lparr> status = 500, json = ErrorResponse ''Internal server error'' \<rparr>)"
  using assms by (simp add: handler_authenticated caught_def respond_def)

section \<open>The claims\<close>

text \<open>
  Claim C1, amended. For every request with valid authentication whose payload passes
  validation, the handler issues exactly one insert, to the table \<^verbatim>\<open>sensor_readings\<close>. The
  row's \<^verbatim>\<open>asset_id\<close>, \<^verbatim>\<open>temperature\<close>, \<^verbatim>\<open>pressure\<close>, \<^verbatim>\<open>vibration\<close> and
  \<^verbatim>\<open>energy_consumption\<close> are the fields of the request body, and its timestamp is the
  \<^verbatim>\<open>timestamp\<close> query parameter when one is supplied and is not the empty string, else
  the value of \<^verbatim>\<open>new Date().toISOString()\<close>. The exception for the empty string is
  needed: \<^verbatim>\<open>||\<close> takes its right operand for every falsy left operand.
\<close>
theorem insert_on_success:
  assumes auth: "authenticated env req"
    and valid: "validateSensorData (body req) = Inr None"
  shows "filter is_Insert (fst (handler env req)) =
     [Insert ''sensor_readings''
        \<lparr> asset_id = js_get (body req) ''asset_id'',
          temperature = js_get (body req) ''temperature'',
          pressure = js_get (body req) ''pressure'',
          vibration = js_get (body req) ''vibration'',
          energy_consumption = js_get (body req) ''energy_consumption'',
          timestamp = (case query_timestamp req of
                         None \<Rightarrow> now_toISOString env
                       | Some ts \<Rightarrow> if ts = [] then now_toISOString env else ts) \<rparr>]"
  using handler_valid_inserts[OF auth valid]
  by (simp add: row_of_def timestamp_or_now_def split: option.splits)

text \<open>The example of the specification, sent with a timestamp parameter.\<close>

theorem insert_on_success_witness:
  "authenticated example_env (example_request None (Some ''2025-01-01T00:00:00Z'') example_body)
   \<and> validateSensorData (body (example_request None (Some ''2025-01-01T00:00:00Z'') example_body)) = Inr None
   \<and> filter is_Insert
        (fst (handler example_env (example_request None (Some ''2025-01-01T00:00:00Z'') example_body))) =
      [Insert ''sensor_readings''
         \<lparr> asset_id = JStr ''A1'', temperature = JNum (Finite 25), pressure = JNum (Finite 10),
           vibration = JNum (Finite 0.5), energy_consumption = JNum (Finite 100),
           timestamp = ''2025-01-01T00:00:00Z'' \<rparr>]"
proof -
  let ?req = "example_request None (Some ''2025-01-01T00:00:00Z'') example_body"
  have a: "authenticated example_env ?req" by (rule example_authenticated)
  have v: "validateSensorData (body ?req) = Inr None"
    by (simp add: example_request_def example_body_valid)
  show ?thesis
    using a v insert_on_success[OF a v]
    by (simp add: example_request_def example_body_def reading_fields)
qed

text \<open>
  A request with \<^verbatim>\<open>?timestamp=\<close> supplies the parameter, as the
  empty string; the row inserted carries the time of the clock instead.
\<close>

theorem empty_timestamp_replaced:
  "query_timestamp (example_request None (Some []) example_body) = Some []
   \<and> handler example_env (example_request None (Some []) example_body) =
      ([GetUser (Some ''good''),
        Insert ''sensor_readings''
          \<lparr> asset_id = JStr ''A1'', temperature = JNum (Finite 25), pressure = JNum (Finite 10),
            vibration = JNum (Finite 0.5), energy_consumption = JNum (Finite 100),
            timestamp = ''2025-03-25T19:20:21.000Z'' \<rparr>],
       \<lparr> status = 200, json = SuccessResponse ''Sensor reading stored successfully'' \<rparr>)"
proof -
  let ?req = "example_request None (Some []) example_body"
  have v: "validateSensorData (body ?req) = Inr None"
    by (simp add: example_request_def example_body_valid)
  have "handler example_env ?req = store_reading example_env [GetUser (sent_token ?req)] ?req"
    by (simp add: handler_authenticated[OF example_authenticated] v)
  then show ?thesis
    by (simp add: store_reading_def row_of_def timestamp_or_now_def example_env_def
        example_request_def sent_token_def token_good example_body_def reading_fields
        respond_def)
qed

text \<open>
  Claim C2, amended. Validation returns \<^verbatim>\<open>Invalid asset_id\<close> if and only if the payload is
  neither \<^verbatim>\<open>null\<close> nor \<^verbatim>\<open>undefined\<close> and its \<^verbatim>\<open>asset_id\<close> is missing, not a string, or
  the empty string; when \<^verbatim>\<open>asset_id\<close> is a non-empty string, validation proceeds past
  the check: its result is that of the numeric checks and the range checks.
\<close>
theorem invalid_asset_id_iff:
  "(validateSensorData d = Inr (Some ''Invalid asset_id'')
      \<longleftrightarrow> d \<noteq> JNull \<and> d \<noteq> JUndefined \<and> \<not> nonempty_string (js_get d ''asset_id''))
   \<and> (nonempty_string (js_get d ''asset_id'') \<longrightarrow>
        validateSensorData d =
          Inr (case check_numeric d numericFields of
                 Some msg \<Rightarrow> Some msg
               | None \<Rightarrow> check_ranges d))"
proof -
  have "validateSensorData d \<noteq> Inr (Some ''Invalid asset_id'')"
    if "nonempty_string (js_get d ''asset_id'')"
  proof (cases "check_numeric d numericFields")
    case None
    then show ?thesis
      using that check_ranges_message[of d "''Invalid asset_id''"]
      by (auto simp: validate_after_asset_id)
  next
    case (Some m)
    then show ?thesis
      using that check_numeric_message[of d m]
      by (auto simp: validate_after_asset_id)
  qed
  moreover have "validateSensorData d \<noteq> Inr (Some ''Invalid asset_id'')"
    if "d = JNull \<or> d = JUndefined"
    using that by (auto simp: validate_nullish)
  ultimately show ?thesis
    using validate_asset_id_bad[of d] validate_after_asset_id[of d] by blast
qed

text \<open>
  A payload without \<^verbatim>\<open>asset_id\<close>, and one that passes the check
  and fails a later one.
\<close>

theorem invalid_asset_id_iff_witness:
  "validateSensorData (JObj [(''temperature'', JNum (Finite 25))]) = Inr (Some ''Invalid asset_id'')
   \<and> validateSensorData (reading (JStr ''A1'') (JNum (Finite 200)) JNull JNull JNull)
       = Inr (Some ''Invalid pressure'')"
  using invalid_asset_id_iff[of "JObj [(''temperature'', JNum (Finite 25))]"]
    invalid_asset_id_iff[of "reading (JStr ''A1'') (JNum (Finite 200)) JNull JNull JNull"]
  by (simp add: nonempty_string_def reading_fields numericFields_def)

text \<open>
  The payload \<^verbatim>\<open>{"asset_id": ""}\<close>: its
  \<^verbatim>\<open>asset_id\<close> is present and a string, and is rejected.
\<close>

theorem empty_asset_id_rejected:
  "js_get (JObj [(''asset_id'', JStr [])]) ''asset_id'' = JStr []
   \<and> typeof (JStr []) = ''string''
   \<and> validateSensorData (JObj [(''asset_id'', JStr [])]) = Inr (Some ''Invalid asset_id'')"
  by (simp add: validateSensorData_def)

text \<open>
  Claim C3, amended. For every payload whose \<^verbatim>\<open>asset_id\<close> is a non-empty string and in
  which at least one of \<^verbatim>\<open>temperature\<close>, \<^verbatim>\<open>pressure\<close>, \<^verbatim>\<open>vibration\<close>,
  \<^verbatim>\<open>energy_consumption\<close> is missing, not a number, or NaN, validation returns
  \<^verbatim>\<open>Invalid <field>\<close> for the first such field in that order, whatever the values of the
  other fields, so no range check decides; a handler that receives the payload with valid
  authentication answers 400 with this message and issues no insert. The condition on
  \<^verbatim>\<open>asset_id\<close> is needed: that check comes first.
\<close>
theorem first_invalid_numeric_field:
  assumes asset: "nonempty_string (js_get d ''asset_id'')"
    and bad: "\<exists>g \<in> set numericFields. \<not> well_formed_number (js_get d g)"
  shows "\<exists>f. find (\<lambda>g. \<not> well_formed_number (js_get d g)) numericFields = Some f
     \<and> validateSensorData d = Inr (Some (''Invalid '' @ f))
     \<and> (authenticated env req \<and> body req = d \<longrightarrow>
          handler env req =
            ([GetUser (sent_token req)], \<lparr> status = 400, json = ErrorResponse (''Invalid '' @ f) \<rparr>))"
proof -
  from bad obtain f where f: "find (\<lambda>g. \<not> well_formed_number (js_get d g)) numericFields = Some f"
    by (meson find_None_iff not_Some_eq)
  then have v: "validateSensorData d = Inr (Some (''Invalid '' @ f))"
    using asset by (simp add: validate_after_asset_id check_numeric_find)
  then have "handler env req =
      ([GetUser (sent_token req)], \<lparr> status = 400, json = ErrorResponse (''Invalid '' @ f) \<rparr>)"
    if "authenticated env req" "body req = d"
    using that by (simp add: handler_authenticated respond_def)
  with f v show ?thesis by blast
qed

text \<open>Pressure is NaN and energy consumption is missing: pressure comes first.\<close>

theorem first_invalid_numeric_field_witness:
  "validateSensorData (reading (JStr ''A1'') (JNum (Finite 25)) (JNum NaN) (JNum (Finite 0.5)) JUndefined)
     = Inr (Some ''Invalid pressure'')
   \<and> handler example_env (example_request None None
        (reading (JStr ''A1'') (JNum (Finite 25)) (JNum NaN) (JNum (Finite 0.5)) JUndefined))
     = ([GetUser (Some ''good'')], \<lparr> status = 400, json = ErrorResponse ''Invalid pressure'' \<rparr>)"
proof -
  let ?d = "reading (JStr ''A1'') (JNum (Finite 25)) (JNum NaN) (JNum (Finite 0.5)) JUndefined"
  let ?req = "example_request None None ?d"
  have a: "nonempty_string (js_get ?d ''asset_id'')"
    by (simp add: reading_fields nonempty_string_def)
  have b: "\<exists>g \<in> set numericFields. \<not> well_formed_number (js_get ?d g)"
    by (simp add: numericFields_def reading_fields well_formed_number_def)
  have f: "find (\<lambda>g. \<not> well_formed_number (js_get ?d g)) numericFields = Some ''pressure''"
    by (simp add: numericFields_def reading_fields well_formed_number_def)
  have r: "authenticated example_env ?req \<and> body ?req = ?d"
    by (simp add: example_authenticated) (simp add: example_request_def)
  have t: "sent_token ?req = Some ''good''"
    by (simp add: sent_token_def example_request_def token_good)
  show ?thesis
    using first_invalid_numeric_field[OF a b, of example_env ?req] f r t by auto
qed

text \<open>
  The payload \<^verbatim>\<open>{"temperature": "hot"}\<close>: its temperature is not
  a number, and the message names \<^verbatim>\<open>asset_id\<close>.
\<close>

theorem numeric_error_after_asset_id:
  "\<not> well_formed_number (js_get (JObj [(''temperature'', JStr ''hot'')]) ''temperature'')
   \<and> validateSensorData (JObj [(''temperature'', JStr ''hot'')]) = Inr (Some ''Invalid asset_id'')"
  by (simp add: validateSensorData_def well_formed_number_def)

text \<open>
  Claim C4, amended. For every payload whose \<^verbatim>\<open>asset_id\<close> is a non-empty string and whose
  four fields are numbers other than NaN, the result of validation is decided by the range
  checks in the fixed order temperature in [-50, 150], pressure \<open>\<ge> 0\<close>, vibration \<open>\<ge> 0\<close>,
  energy consumption \<open>\<ge> 0\<close>: the first violated constraint gives the message, and
  \<^verbatim>\<open>null\<close> is returned when none is violated. The boundary values -50 and 150 for
  temperature and 0 for the other three satisfy the constraints. The condition on
  \<^verbatim>\<open>asset_id\<close> is needed: that check comes first.
\<close>
theorem range_checks_in_order:
  assumes asset: "nonempty_string (js_get d ''asset_id'')"
    and t: "js_get d ''temperature'' = JNum t" "t \<noteq> NaN"
    and p: "js_get d ''pressure'' = JNum p" "p \<noteq> NaN"
    and v: "js_get d ''vibration'' = JNum v" "v \<noteq> NaN"
    and e: "js_get d ''energy_consumption'' = JNum e" "e \<noteq> NaN"
  shows "validateSensorData d =
       Inr (if \<not> temperature_in_range t then Some ''Temperature must be between -50 and 150''
            else if \<not> non_negative p then Some ''Pressure must be non-negative''
            else if \<not> non_negative v then Some ''Vibration must be non-negative''
            else if \<not> non_negative e then Some ''Energy consumption must be non-negative''
            else None)
     \<and> temperature_in_range (Finite (- 50)) \<and> temperature_in_range (Finite 150)
     \<and> non_negative (Finite 0)"
  using validate_numeric[OF asset t p v e]
  by (simp add: temperature_in_range_def non_negative_def)

text \<open>
  The boundary values pass; of several violations the first in the order is reported.
\<close>

theorem range_checks_in_order_witness:
  "validateSensorData (reading (JStr ''A1'') (JNum (Finite (- 50))) (JNum (Finite 0)) (JNum (Finite 0)) (JNum (Finite 0)))
     = Inr None
   \<and> validateSensorData (reading (JStr ''A1'') (JNum (Finite 150)) (JNum (Finite 0)) (JNum (Finite 0)) (JNum (Finite 0)))
     = Inr None
   \<and> validateSensorData (reading (JStr ''A1'') (JNum (Finite 150.5)) (JNum (Finite (- 1))) (JNum (Finite 0)) (JNum (Finite 0)))
     = Inr (Some ''Temperature must be between -50 and 150'')
   \<and> validateSensorData (reading (JStr ''A1'') (JNum (Finite 20)) (JNum (Finite 3)) (JNum (Finite (- 2))) (JNum (Finite (- 1))))
     = Inr (Some ''Vibration must be non-negative'')"
  using
    range_checks_in_order[of "reading (JStr ''A1'') (JNum (Finite (- 50))) (JNum (Finite 0)) (JNum (Finite 0)) (JNum (Finite 0))"
      "Finite (- 50)" "Finite 0" "Finite 0" "Finite 0"]
    range_checks_in_order[of "reading (JStr ''A1'') (JNum (Finite 150)) (JNum (Finite 0)) (JNum (Finite 0)) (JNum (Finite 0))"
      "Finite 150" "Finite 0" "Finite 0" "Finite 0"]
    range_checks_in_order[of "reading (JStr ''A1'') (JNum (Finite 150.5)) (JNum (Finite (- 1))) (JNum (Finite 0)) (JNum (Finite 0))"
      "Finite 150.5" "Finite (- 1)" "Finite 0" "Finite 0"]
    range_checks_in_order[of "reading (JStr ''A1'') (JNum (Finite 20)) (JNum (Finite 3)) (JNum (Finite (- 2))) (JNum (Finite (- 1)))"
      "Finite 20" "Finite 3" "Finite (- 2)" "Finite (- 1)"]
  by (simp add: reading_fields nonempty_string_def temperature_in_range_def non_negative_def)

text \<open>
  A payload of four numbers with temperature 200 and no
  \<^verbatim>\<open>asset_id\<close>: the message is not the one of the temperature
  range.
\<close>

theorem range_error_after_asset_id:
  "js_get (JObj [(''temperature'', JNum (Finite 200)), (''pressure'', JNum (Finite 0)),
                 (''vibration'', JNum (Finite 0)), (''energy_consumption'', JNum (Finite 0))])
      ''temperature'' = JNum (Finite 200)
   \<and> validateSensorData
        (JObj [(''temperature'', JNum (Finite 200)), (''pressure'', JNum (Finite 0)),
               (''vibration'', JNum (Finite 0)), (''energy_consumption'', JNum (Finite 0))])
      = Inr (Some ''Invalid asset_id'')"
  by (simp add: validateSensorData_def)

text \<open>
  Claim C5. For every request whose \<^verbatim>\<open>Authorization\<close> header is absent or does not start
  with \<^verbatim>\<open>Bearer \<close>, the handler responds 401 and performs no effect at all; in particular
  the auth provider's \<^verbatim>\<open>getUser\<close> is never called.
\<close>
theorem no_bearer_no_verify:
  assumes "authorization req = None \<or> (\<exists>h. authorization req = Some h \<and> \<not> prefix ''Bearer '' h)"
  shows "fst (handler env req) = []
     \<and> snd (handler env req) =
         \<lparr> status = 401, json = ErrorResponse ''Missing or invalid Authorization header'' \<rparr>"
  using assms by (auto simp: handler_def respond_def)

text \<open>A header of another scheme, and no header.\<close>

theorem no_bearer_no_verify_witness:
  "handler example_env \<lparr> authorization = Some ''Basic good'', params_id = None,
      query_timestamp = None, body = example_body \<rparr>
     = ([], \<lparr> status = 401, json = ErrorResponse ''Missing or invalid Authorization header'' \<rparr>)
   \<and> handler example_env \<lparr> authorization = None, params_id = None,
      query_timestamp = None, body = example_body \<rparr>
     = ([], \<lparr> status = 401, json = ErrorResponse ''Missing or invalid Authorization header'' \<rparr>)"
  using
    no_bearer_no_verify[of "\<lparr> authorization = Some ''Basic good'', params_id = None,
      query_timestamp = None, body = example_body \<rparr>" example_env]
    no_bearer_no_verify[of "\<lparr> authorization = None, params_id = None,
      query_timestamp = None, body = example_body \<rparr>" example_env]
  by (simp add: prod_eq_iff)

text \<open>
  Claim C6. For every request with a header of the bearer scheme whose token the auth
  provider rejects (its reply carries an error, or no user), the handler responds 401; its
  only effect is the call of \<^verbatim>\<open>getUser\<close>, so no insert is issued.
\<close>
theorem rejected_token_no_insert:
  assumes "authorization req = Some h" and "prefix ''Bearer '' h"
    and "getUser env (token_of h) = Inr reply"
    and "auth_error reply \<noteq> None \<or> auth_user reply = None"
  shows "handler env req =
     ([GetUser (token_of h)], \<lparr> status = 401, json = ErrorResponse ''Invalid token'' \<rparr>)
     \<and> filter is_Insert (fst (handler env req)) = []"
  using assms by (auto simp: handler_def respond_def)

text \<open>A bearer token the example provider does not know.\<close>

theorem rejected_token_no_insert_witness:
  "handler example_env \<lparr> authorization = Some ''Bearer stolen'', params_id = None,
      query_timestamp = None, body = example_body \<rparr>
     = ([GetUser (Some ''stolen'')], \<lparr> status = 401, json = ErrorResponse ''Invalid token'' \<rparr>)"
proof -
  let ?req = "\<lparr> authorization = Some ''Bearer stolen'', params_id = None,
      query_timestamp = None, body = example_body \<rparr>"
  have tok: "token_of ''Bearer stolen'' = Some ''stolen''"
    by (simp add: token_of_def js_index_def)
  have 1: "authorization ?req = Some ''Bearer stolen''" by simp
  have 2: "prefix ''Bearer '' ''Bearer stolen''" by simp
  have 3: "getUser example_env (token_of ''Bearer stolen'')
      = Inr \<lparr> auth_user = None, auth_error = Some ''invalid JWT'' \<rparr>"
    by (simp add: tok example_env_def)
  show ?thesis
    using rejected_token_no_insert[OF 1 2 3] by (simp add: tok)
qed

text \<open>
  Claim C7. Whenever the handler issues an insert and the storage provider answers it with
  an error \<open>e\<close>, the response is 500 with the fixed message
  \<^verbatim>\<open>Failed to store sensor reading\<close>, the same for every \<open>e\<close>; the detail \<open>e\<close> goes to
  \<^verbatim>\<open>console.error\<close> only.
\<close>
theorem insert_error_hidden:
  assumes issued: "Insert t row \<in> set (fst (handler env req))"
    and failed: "insert_into env t row = Inr (Some e)"
  shows "snd (handler env req) =
       \<lparr> status = 500, json = ErrorResponse ''Failed to store sensor reading'' \<rparr>
     \<and> fst (handler env req) =
       [GetUser (sent_token req), Insert t row,
        ConsoleError ''Error inserting sensor data:'' (Inr e)]"
  using insert_effect_origin[OF issued] failed
  by (simp add: store_reading_def respond_def)

text \<open>
  A reading of asset \<^verbatim>\<open>B2\<close>, which the example storage provider
  refuses.
\<close>

theorem insert_error_hidden_witness:
  "handler example_env
     (example_request None None
        (reading (JStr ''B2'') (JNum (Finite 25)) (JNum (Finite 10)) (JNum (Finite 0.5))
           (JNum (Finite 100))))
   = ([GetUser (Some ''good''),
       Insert ''sensor_readings''
         \<lparr> asset_id = JStr ''B2'', temperature = JNum (Finite 25), pressure = JNum (Finite 10),
           vibration = JNum (Finite 0.5), energy_consumption = JNum (Finite 100),
           timestamp = ''2025-03-25T19:20:21.000Z'' \<rparr>,
       ConsoleError ''Error inserting sensor data:'' (Inr ''violates foreign key constraint'')],
      \<lparr> status = 500, json = ErrorResponse ''Failed to store sensor reading'' \<rparr>)"
proof -
  let ?d = "reading (JStr ''B2'') (JNum (Finite 25)) (JNum (Finite 10)) (JNum (Finite 0.5))
           (JNum (Finite 100))"
  let ?req = "example_request None None ?d"
  let ?row = "\<lparr> asset_id = JStr ''B2'', temperature = JNum (Finite 25), pressure = JNum (Finite 10),
           vibration = JNum (Finite 0.5), energy_consumption = JNum (Finite 100),
           timestamp = ''2025-03-25T19:20:21.000Z'' \<rparr>"
  have v: "validateSensorData (body ?req) = Inr None"
    by (simp add: example_request_def validate_after_asset_id reading_fields nonempty_string_def
        numericFields_def check_ranges_def)
  have r: "row_of ?req (now_toISOString example_env) = ?row"
    by (simp add: row_of_def example_request_def reading_fields timestamp_or_now_def
        example_env_def)
  have "filter is_Insert (fst (handler example_env ?req)) = [Insert ''sensor_readings'' ?row]"
    using handler_valid_inserts[OF example_authenticated v] r by simp
  then have "Insert ''sensor_readings'' ?row \<in> set (filter is_Insert (fst (handler example_env ?req)))"
    by simp
  then have i: "Insert ''sensor_readings'' ?row \<in> set (fst (handler example_env ?req))"
    by simp
  have f: "insert_into example_env ''sensor_readings'' ?row
      = Inr (Some ''violates foreign key constraint'')"
    by (simp add: example_env_def)
  have t: "sent_token ?req = Some ''good''"
    by (simp add: sent_token_def example_request_def token_good)
  show ?thesis
    using insert_error_hidden[OF i f] t by (simp add: prod_eq_iff)
qed

text \<open>
  Claim C8. Two requests that agree on the \<^verbatim>\<open>Authorization\<close> header, the
  \<^verbatim>\<open>timestamp\<close> query parameter and the body, and so differ at most in the path parameter
  \<^verbatim>\<open>id\<close>, get the same response and cause the same effects (the same insert, or none).
\<close>
theorem path_id_unused:
  assumes "authorization r1 = authorization r2"
    and "query_timestamp r1 = query_timestamp r2"
    and "body r1 = body r2"
  shows "handler env r1 = handler env r2"
proof -
  have "row_of r1 now = row_of r2 now" for now
    using assms by (simp add: row_of_def)
  then have "store_reading env sofar r1 = store_reading env sofar r2" for sofar
    by (simp add: store_reading_def)
  then show ?thesis
    using assms by (auto simp: handler_def Let_def split: option.splits sum.splits)
qed

text \<open>
  The same request sent to \<^verbatim>\<open>/api/ingest-sensor/pump-7\<close> and to
  \<^verbatim>\<open>/api/ingest-sensor\<close>.
\<close>

theorem path_id_unused_witness:
  "handler example_env (example_request (Some ''pump-7'') None example_body)
     = handler example_env (example_request None None example_body)
   \<and> params_id (example_request (Some ''pump-7'') None example_body)
     \<noteq> params_id (example_request None None example_body)"
  using path_id_unused[of "example_request (Some ''pump-7'') None example_body"
      "example_request None None example_body" example_env]
  by (simp add: example_request_def)

text \<open>
  Claim C9. For every payload whose \<^verbatim>\<open>asset_id\<close> is a non-empty string, whose temperature
  is a number in [-50, 150], and whose pressure, vibration and energy consumption are
  numbers that are non-negative or positive infinity, at least one of them positive
  infinity, \<^verbatim>\<open>validateSensorData\<close> returns \<^verbatim>\<open>null\<close>; a handler that receives the payload
  with valid authentication hands the infinite value to the insert.
\<close>
theorem infinity_accepted:
  assumes asset: "nonempty_string (js_get d ''asset_id'')"
    and t: "js_get d ''temperature'' = JNum (Finite t)" "- 50 \<le> t" "t \<le> 150"
    and p: "js_get d ''pressure'' = JNum p" "non_negative p"
    and v: "js_get d ''vibration'' = JNum v" "non_negative v"
    and e: "js_get d ''energy_consumption'' = JNum e" "non_negative e"
    and inf: "p = PosInfinity \<or> v = PosInfinity \<or> e = PosInfinity"
  shows "validateSensorData d = Inr None
     \<and> (authenticated env req \<and> body req = d \<longrightarrow>
          filter is_Insert (fst (handler env req)) =
            [Insert ''sensor_readings''
               \<lparr> asset_id = js_get d ''asset_id'', temperature = JNum (Finite t),
                 pressure = JNum p, vibration = JNum v, energy_consumption = JNum e,
                 timestamp = timestamp_or_now (query_timestamp req) (now_toISOString env) \<rparr>])"
proof -
  have nn: "x \<noteq> NaN" if "non_negative x" for x
    using that by (auto simp: non_negative_def)
  have valid: "validateSensorData d = Inr None"
    using validate_numeric[OF asset t(1) _ p(1) nn[OF p(2)] v(1) nn[OF v(2)] e(1) nn[OF e(2)]]
      t(2,3) p(2) v(2) e(2)
    by (simp add: temperature_in_range_def)
  moreover have "filter is_Insert (fst (handler env req)) =
      [Insert ''sensor_readings''
         \<lparr> asset_id = js_get d ''asset_id'', temperature = JNum (Finite t),
           pressure = JNum p, vibration = JNum v, energy_consumption = JNum e,
           timestamp = timestamp_or_now (query_timestamp req) (now_toISOString env) \<rparr>]"
    if "authenticated env req" "body req = d"
    using handler_valid_inserts[of env req] that valid t(1) p(1) v(1) e(1)
    by (simp add: row_of_def)
  ultimately show ?thesis by blast
qed

text \<open>
  A pressure of \<^verbatim>\<open>1e999\<close>, which JSON parsing reads as positive
  infinity.
\<close>

theorem infinity_accepted_witness:
  "validateSensorData
     (reading (JStr ''A1'') (JNum (Finite 25)) (JNum PosInfinity) (JNum (Finite 0.5)) (JNum (Finite 100)))
     = Inr None
   \<and> filter is_Insert (fst (handler example_env (example_request None None
        (reading (JStr ''A1'') (JNum (Finite 25)) (JNum PosInfinity) (JNum (Finite 0.5)) (JNum (Finite 100))))))
     = [Insert ''sensor_readings''
          \<lparr> asset_id = JStr ''A1'', temperature = JNum (Finite 25), pressure = JNum PosInfinity,
            vibration = JNum (Finite 0.5), energy_consumption = JNum (Finite 100),
            timestamp = ''2025-03-25T19:20:21.000Z'' \<rparr>]"
proof -
  let ?d = "reading (JStr ''A1'') (JNum (Finite 25)) (JNum PosInfinity) (JNum (Finite 0.5)) (JNum (Finite 100))"
  let ?req = "example_request None None ?d"
  have r: "authenticated example_env ?req \<and> body ?req = ?d"
    by (simp add: example_authenticated) (simp add: example_request_def)
  have q: "timestamp_or_now (query_timestamp ?req) (now_toISOString example_env)
      = ''2025-03-25T19:20:21.000Z''"
    by (simp add: example_request_def timestamp_or_now_def example_env_def)
  show ?thesis
    using infinity_accepted[of ?d 25 PosInfinity "Finite 0.5" "Finite 100" example_env ?req] r q
    by (simp add: reading_fields nonempty_string_def non_negative_def)
qed

text \<open>
  Claim C10, amended. The inputs are the values JSON parsing can produce, and
  \<^verbatim>\<open>undefined\<close>. On every such value other than \<^verbatim>\<open>null\<close> and \<^verbatim>\<open>undefined\<close>,
  \<^verbatim>\<open>validateSensorData\<close> returns, without throwing, either \<^verbatim>\<open>null\<close> or one of nine fixed
  messages. On \<^verbatim>\<open>null\<close> and \<^verbatim>\<open>undefined\<close> it throws a TypeError; a handler that
  receives such a body with valid authentication logs the exception and answers 500 with
  \<^verbatim>\<open>Internal server error\<close>, without an insert. The result is determined by the input:
  two inputs that are both, or neither, \<^verbatim>\<open>null\<close> or \<^verbatim>\<open>undefined\<close>, and that agree on
  the five properties read, give the same result. The nine messages are pairwise
  different and each of them is returned for some payload.
\<close>
theorem validate_result_shape:
  "(d \<noteq> JNull \<and> d \<noteq> JUndefined \<longrightarrow>
      (\<exists>r. validateSensorData d = Inr r \<and> (r = None \<or> (\<exists>m \<in> set validation_messages. r = Some m))))
   \<and> (d = JNull \<or> d = JUndefined \<longrightarrow>
        validateSensorData d = Inl TypeError
        \<and> (authenticated env req \<and> body req = d \<longrightarrow>
             handler env req =
               ([GetUser (sent_token req),
                 ConsoleError ''Error processing request:'' (Inl TypeError)],
                \<lparr> status = 500, json = ErrorResponse ''Internal server error'' \<rparr>)))
   \<and> ((d = JNull \<or> d = JUndefined) = (d' = JNull \<or> d' = JUndefined)
        \<and> (\<forall>k \<in> set (''asset_id'' # numericFields). js_get d k = js_get d' k) \<longrightarrow>
        validateSensorData d = validateSensorData d')
   \<and> distinct validation_messages \<and> length validation_messages = 9
   \<and> map validateSensorData message_payloads = map (\<lambda>m. Inr (Some m)) validation_messages"
proof -
  have shape: "\<exists>r. validateSensorData d = Inr r \<and> (r = None \<or> (\<exists>m \<in> set validation_messages. r = Some m))"
    if nn: "d \<noteq> JNull" "d \<noteq> JUndefined"
  proof (cases "nonempty_string (js_get d ''asset_id'')")
    case False
    then show ?thesis
      using nn by (simp add: validate_asset_id_bad validation_messages_def)
  next
    case True
    show ?thesis
    proof (cases "check_numeric d numericFields")
      case None
      then have v: "validateSensorData d = Inr (check_ranges d)"
        using True by (simp add: validate_after_asset_id)
      show ?thesis
      proof (cases "check_ranges d")
        case None
        then show ?thesis using v by simp
      next
        case (Some m)
        then show ?thesis
          using v check_ranges_message[of d m] by (auto simp: validation_messages_def)
      qed
    next
      case (Some m)
      then show ?thesis
        using True check_numeric_message[of d m]
        by (auto simp: validate_after_asset_id validation_messages_def)
    qed
  qed
  have throws: "validateSensorData d = Inl TypeError" if "d = JNull \<or> d = JUndefined"
    using that by (rule validate_nullish)
  have caught500: "handler env req =
      ([GetUser (sent_token req), ConsoleError ''Error processing request:'' (Inl TypeError)],
       \<lparr> status = 500, json = ErrorResponse ''Internal server error'' \<rparr>)"
    if "d = JNull \<or> d = JUndefined" "authenticated env req" "body req = d"
    using that throws by (simp add: handler_validation_throws)
  have fields: "validateSensorData d = validateSensorData d'"
    if "(d = JNull \<or> d = JUndefined) = (d' = JNull \<or> d' = JUndefined)"
      "\<forall>k \<in> set (''asset_id'' # numericFields). js_get d k = js_get d' k"
    using that by (rule validate_fields_only)
  have attained: "map validateSensorData message_payloads
      = map (\<lambda>m. Inr (Some m)) validation_messages"
    by (simp add: message_payloads_def validation_messages_def validate_after_asset_id
        validate_asset_id_bad reading_fields nonempty_string_def numericFields_def
        check_ranges_def reading_def)
  have msgs: "distinct validation_messages \<and> length validation_messages = 9"
    by (simp add: validation_messages_def)
  show ?thesis
    using shape throws caught500 fields attained msgs by blast
qed

text \<open>
  The example body; \<^verbatim>\<open>null\<close> sent as the body of an authenticated
  request; and the example body with one more property, which validation does not read.
\<close>

theorem validate_result_shape_witness:
  "(\<exists>r. validateSensorData example_body = Inr r
        \<and> (r = None \<or> (\<exists>m \<in> set validation_messages. r = Some m)))
   \<and> validateSensorData JNull = Inl TypeError
   \<and> handler example_env (example_request None None JNull) =
       ([GetUser (Some ''good''), ConsoleError ''Error processing request:'' (Inl TypeError)],
        \<lparr> status = 500, json = ErrorResponse ''Internal server error'' \<rparr>)
   \<and> validateSensorData
        (JObj [(''site'', JStr ''north''), (''asset_id'', JStr ''A1''),
               (''temperature'', JNum (Finite 25)), (''pressure'', JNum (Finite 10)),
               (''vibration'', JNum (Finite 0.5)), (''energy_consumption'', JNum (Finite 100))])
      = validateSensorData example_body
   \<and> length validation_messages = 9"
proof -
  let ?req = "example_request None None JNull"
  let ?d' = "JObj [(''site'', JStr ''north''), (''asset_id'', JStr ''A1''),
               (''temperature'', JNum (Finite 25)), (''pressure'', JNum (Finite 10)),
               (''vibration'', JNum (Finite 0.5)), (''energy_consumption'', JNum (Finite 100))]"
  have nn: "example_body \<noteq> JNull \<and> example_body \<noteq> JUndefined"
    by (simp add: example_body_def reading_def)
  have r: "authenticated example_env ?req \<and> body ?req = JNull"
    by (simp add: example_authenticated) (simp add: example_request_def)
  have t: "sent_token ?req = Some ''good''"
    by (simp add: sent_token_def example_request_def token_good)
  have same: "\<forall>k \<in> set (''asset_id'' # numericFields). js_get ?d' k = js_get example_body k"
    by (simp add: numericFields_def example_body_def reading_def)
  have n: "(?d' = JNull \<or> ?d' = JUndefined) = (example_body = JNull \<or> example_body = JUndefined)"
    using nn by simp
  have e1: "\<exists>r. validateSensorData example_body = Inr r
        \<and> (r = None \<or> (\<exists>m \<in> set validation_messages. r = Some m))"
    using validate_result_shape[of example_body example_env ?req example_body] nn by blast
  have e2: "validateSensorData JNull = Inl TypeError
      \<and> handler example_env ?req =
         ([GetUser (sent_token ?req), ConsoleError ''Error processing request:'' (Inl TypeError)],
          \<lparr> status = 500, json = ErrorResponse ''Internal server error'' \<rparr>)"
    using validate_result_shape[of JNull example_env ?req JNull] r by blast
  have e3: "validateSensorData ?d' = validateSensorData example_body
      \<and> length validation_messages = 9"
    using validate_result_shape[of ?d' example_env ?req example_body] n same by blast
  show ?thesis
    using e1 e2 e3 t by simp
qed

text \<open>
  On \<^verbatim>\<open>null\<close> and \<^verbatim>\<open>undefined\<close> the
  function throws instead of returning.
\<close>

theorem validate_null_throws:
  "validateSensorData JNull = Inl TypeError \<and> validateSensorData JUndefined = Inl TypeError"
  by (simp add: validateSensorData_def)

end
